theory Spec2Isabelle
  imports Main "HOL-Library.Log_Nat"
begin

section \<open>C++ numbers as the sketch uses them\<close>

text \<open>
  C++ \<^verbatim>\<open>int\<close> values (sensor codes, thresholds) are modelled as \<^typ>\<open>int\<close>: the sketch only
  compares them, prints them and converts them to \<^verbatim>\<open>float\<close>; it never adds or multiplies two
  of them, so no wrap-around can occur and every 16-bit or 32-bit value is an \<^typ>\<open>int\<close> with the
  same order.

  C++ \<^verbatim>\<open>float\<close> and \<^verbatim>\<open>double\<close> values are modelled as IEEE 754 binary floating-point data:
  a finite rational value, one of the two infinities, or NaN. The sign of zero is not
  modelled (\<open>Finite 0\<close> stands for both zeros): the sketch never inspects it.
\<close>

datatype cfloat = Finite rat | PosInf | NegInf | NaN

text \<open>
  The two formats that occur. \<^verbatim>\<open>float\<close> is binary32 on every Arduino target; \<^verbatim>\<open>double\<close> is
  binary32 on the 8-bit AVR boards and binary64 elsewhere, so every function that computes
  in \<^verbatim>\<open>double\<close> takes the format of \<^verbatim>\<open>double\<close> as a parameter.
\<close>

datatype fmt = Binary32 | Binary64

fun prec :: "fmt \<Rightarrow> int" where
  "prec Binary32 = 24"
| "prec Binary64 = 53"

fun emin :: "fmt \<Rightarrow> int" where
  "emin Binary32 = - 126"
| "emin Binary64 = - 1022"

fun emax :: "fmt \<Rightarrow> int" where
  "emax Binary32 = 127"
| "emax Binary64 = 1023"

definition pow2 :: "int \<Rightarrow> rat" where
  "pow2 e = (if 0 \<le> e then 2 ^ nat e else 1 / 2 ^ nat (- e))"

text \<open>The binary exponent \<open>\<lfloor>log\<^sub>2 x\<rfloor>\<close> of a positive rational \<open>x = a / b\<close>.\<close>

definition ilog2 :: "rat \<Rightarrow> int" where
  "ilog2 x =
     (let (a, b) = quotient_of x;
          e0 = bitlen a - bitlen b
      in if pow2 e0 \<le> x then e0 else e0 - 1)"

text \<open>Rounding a rational to the nearest integer, ties to the even one.\<close>

definition round_half_even :: "rat \<Rightarrow> int" where
  "round_half_even x =
     (let f = \<lfloor>x\<rfloor>;
          d = x - of_int f
      in if d < 1 / 2 then f
         else if 1 / 2 < d then f + 1
         else if even f then f else f + 1)"

text \<open>
  Rounding an exact result to a format, round-to-nearest-even (the default rounding
  direction, which the sketch never changes): the result is a multiple of the unit in the
  last place of its binade (of the smallest normal binade for subnormal results), and a
  result beyond the largest finite number is an infinity.
\<close>

definition fround :: "fmt \<Rightarrow> rat \<Rightarrow> cfloat" where
  "fround f x =
     (if x = 0 then Finite 0
      else
        let e = max (ilog2 \<bar>x\<bar>) (emin f);
            u = pow2 (e - prec f + 1);
            r = of_int (round_half_even (x / u)) * u
        in if pow2 (emax f + 1) \<le> \<bar>r\<bar> then (if 0 < x then PosInf else NegInf)
           else Finite r)"

text \<open>The sign of a datum that is not NaN, as \<open>-1\<close>, \<open>0\<close> or \<open>1\<close>.\<close>

fun fsgn :: "cfloat \<Rightarrow> int" where
  "fsgn (Finite a) = (if a < 0 then - 1 else if a = 0 then 0 else 1)"
| "fsgn PosInf = 1"
| "fsgn NegInf = - 1"
| "fsgn NaN = 0"

definition inf_of_sign :: "int \<Rightarrow> cfloat" where
  "inf_of_sign s = (if s = 0 then NaN else if 0 < s then PosInf else NegInf)"

text \<open>C++ \<^verbatim>\<open>x * y\<close> in format \<open>f\<close>.\<close>

fun fmul :: "fmt \<Rightarrow> cfloat \<Rightarrow> cfloat \<Rightarrow> cfloat" where
  "fmul f NaN y = NaN"
| "fmul f x NaN = NaN"
| "fmul f (Finite a) (Finite b) = fround f (a * b)"
| "fmul f x y = inf_of_sign (fsgn x * fsgn y)"

text \<open>C++ \<^verbatim>\<open>x - y\<close> in format \<open>f\<close>.\<close>

fun fsub :: "fmt \<Rightarrow> cfloat \<Rightarrow> cfloat \<Rightarrow> cfloat" where
  "fsub f NaN y = NaN"
| "fsub f x NaN = NaN"
| "fsub f (Finite a) (Finite b) = fround f (a - b)"
| "fsub f PosInf PosInf = NaN"
| "fsub f NegInf NegInf = NaN"
| "fsub f PosInf y = PosInf"
| "fsub f NegInf y = NegInf"
| "fsub f (Finite a) PosInf = NegInf"
| "fsub f (Finite a) NegInf = PosInf"

text \<open>
  C++ \<^verbatim>\<open>x / y\<close> in format \<open>f\<close>. A zero divisor is taken as \<open>+0.0\<close>; the only division of the
  sketch has the non-zero constant divisor \<^verbatim>\<open>ADC_RESOLUTION\<close>.
\<close>

fun fdiv :: "fmt \<Rightarrow> cfloat \<Rightarrow> cfloat \<Rightarrow> cfloat" where
  "fdiv f NaN y = NaN"
| "fdiv f x NaN = NaN"
| "fdiv f (Finite a) (Finite b) =
     (if b = 0 then inf_of_sign (fsgn (Finite a)) else fround f (a / b))"
| "fdiv f (Finite a) y = Finite 0"
| "fdiv f x (Finite b) = inf_of_sign (fsgn x * (if b < 0 then - 1 else 1))"
| "fdiv f x y = NaN"

text \<open>Conversion of a datum to format \<open>f\<close> (exact when \<open>f\<close> is the wider format).\<close>

fun fcast :: "fmt \<Rightarrow> cfloat \<Rightarrow> cfloat" where
  "fcast f (Finite a) = fround f a"
| "fcast f x = x"

text \<open>Conversion of a C++ \<^verbatim>\<open>int\<close> to \<^verbatim>\<open>float\<close>.\<close>

definition int_to_float :: "int \<Rightarrow> cfloat" where
  "int_to_float i = fround Binary32 (of_int i)"

text \<open>
  C++ \<^verbatim>\<open>x > y\<close> and \<^verbatim>\<open>x < y\<close> on floating-point data: false as soon as an operand is NaN.
\<close>

fun fless :: "cfloat \<Rightarrow> cfloat \<Rightarrow> bool" where
  "fless NaN y = False"
| "fless x NaN = False"
| "fless (Finite a) (Finite b) = (a < b)"
| "fless x PosInf = (x \<noteq> PosInf)"
| "fless NegInf y = (y \<noteq> NegInf)"
| "fless x y = False"

definition fgreater :: "cfloat \<Rightarrow> cfloat \<Rightarrow> bool" where
  "fgreater x y = fless y x"

section \<open>Configuration constants of the sketch\<close>

definition MOISTURE_THRESHOLD :: int where
  "MOISTURE_THRESHOLD = 300"

definition GAS_THRESHOLD :: int where
  "GAS_THRESHOLD = 400"

definition TEMP_THRESHOLD :: cfloat where
  "TEMP_THRESHOLD = Finite 30"

definition VOLTAGE_REF :: cfloat where
  "VOLTAGE_REF = Finite 5"

definition ADC_RESOLUTION :: int where
  "ADC_RESOLUTION = 1023"

definition SAMPLING_INTERVAL :: nat where
  "SAMPLING_INTERVAL = 5000"

section \<open>Irrigation policy\<close>

definition shouldIrrigate :: "int \<Rightarrow> cfloat \<Rightarrow> int \<Rightarrow> bool" where
  "shouldIrrigate moisture temp gas =
     (let lowMoisture = moisture < MOISTURE_THRESHOLD;
          highTemperature = fgreater temp TEMP_THRESHOLD;
          highGasStress = gas > GAS_THRESHOLD
      in lowMoisture \<or> (highTemperature \<and> highGasStress))"

section \<open>The board: pins, serial port, clock\<close>

text \<open>
  The Arduino core is not part of the sketch. Its calls are modelled as primitives on an
  explicit board state; each primitive also appends the call to a trace, so that the order
  of the calls can be stated.

  \<open>A0\<close>, \<open>A1\<close>, \<open>A2\<close> are the core's names of the analog input pins; they are kept as names,
  distinct from one another and from every numbered digital pin.
\<close>

datatype pin = A0 | A1 | A2 | DigitalPin int

datatype pin_mode = INPUT | OUTPUT

datatype level = LOW | HIGH

datatype io_call =
    SerialBegin int
  | PinMode pin pin_mode
  | DigitalWrite pin level
  | AnalogRead pin int
  | SerialPrintStr string
  | SerialPrintInt int
  | SerialPrintFloat cfloat
  | SerialPrintlnStr string
  | Delay nat

text \<open>
  \<open>analogIn s k p\<close> is what the converter answers when the \<open>k\<close>-th \<^verbatim>\<open>analogRead\<close> of the run
  is made on pin \<open>p\<close>; \<open>reads\<close> counts the reads made so far; \<open>waited\<close> is the time spent in
  \<^verbatim>\<open>delay\<close>, in milliseconds.
\<close>

record hw =
  pinModes :: "pin \<Rightarrow> pin_mode option"
  pinLevels :: "pin \<Rightarrow> level option"
  analogIn :: "nat \<Rightarrow> pin \<Rightarrow> int"
  reads :: nat
  waited :: nat
  calls :: "io_call list"

definition Serial_begin :: "int \<Rightarrow> hw \<Rightarrow> hw" where
  "Serial_begin baud s = s\<lparr>calls := calls s @ [SerialBegin baud]\<rparr>"

definition pinMode :: "pin \<Rightarrow> pin_mode \<Rightarrow> hw \<Rightarrow> hw" where
  "pinMode p m s = s\<lparr>pinModes := (pinModes s)(p \<mapsto> m), calls := calls s @ [PinMode p m]\<rparr>"

definition digitalWrite :: "pin \<Rightarrow> level \<Rightarrow> hw \<Rightarrow> hw" where
  "digitalWrite p v s =
     s\<lparr>pinLevels := (pinLevels s)(p \<mapsto> v), calls := calls s @ [DigitalWrite p v]\<rparr>"

definition analogRead :: "pin \<Rightarrow> hw \<Rightarrow> int \<times> hw" where
  "analogRead p s =
     (let v = analogIn s (reads s) p
      in (v, s\<lparr>reads := reads s + 1, calls := calls s @ [AnalogRead p v]\<rparr>))"

definition Serial_print_str :: "string \<Rightarrow> hw \<Rightarrow> hw" where
  "Serial_print_str t s = s\<lparr>calls := calls s @ [SerialPrintStr t]\<rparr>"

definition Serial_print_int :: "int \<Rightarrow> hw \<Rightarrow> hw" where
  "Serial_print_int i s = s\<lparr>calls := calls s @ [SerialPrintInt i]\<rparr>"

definition Serial_print_float :: "cfloat \<Rightarrow> hw \<Rightarrow> hw" where
  "Serial_print_float x s = s\<lparr>calls := calls s @ [SerialPrintFloat x]\<rparr>"

definition Serial_println_str :: "string \<Rightarrow> hw \<Rightarrow> hw" where
  "Serial_println_str t s = s\<lparr>calls := calls s @ [SerialPrintlnStr t]\<rparr>"

definition delay :: "nat \<Rightarrow> hw \<Rightarrow> hw" where
  "delay ms s = s\<lparr>waited := waited s + ms, calls := calls s @ [Delay ms]\<rparr>"

text \<open>
  The bytes a call sends over the serial port. \<^verbatim>\<open>println\<close> ends its text with carriage
  return and line feed. How the core writes a number is left open: \<open>showi\<close> and \<open>showf\<close>
  are its decimal formats for \<^verbatim>\<open>int\<close> and for \<^verbatim>\<open>float\<close>.
\<close>

fun sent :: "(int \<Rightarrow> string) \<Rightarrow> (cfloat \<Rightarrow> string) \<Rightarrow> io_call \<Rightarrow> string" where
  "sent showi showf (SerialPrintStr t) = t"
| "sent showi showf (SerialPrintInt i) = showi i"
| "sent showi showf (SerialPrintFloat x) = showf x"
| "sent showi showf (SerialPrintlnStr t) = t @ [CHR 0x0D, CHR 0x0A]"
| "sent showi showf c = []"

definition serial_text :: "(int \<Rightarrow> string) \<Rightarrow> (cfloat \<Rightarrow> string) \<Rightarrow> io_call list \<Rightarrow> string" where
  "serial_text showi showf cs = concat (map (sent showi showf) cs)"

section \<open>The sketch\<close>

definition SOIL_MOISTURE_PIN :: pin where
  "SOIL_MOISTURE_PIN = A0"

definition TEMPERATURE_PIN :: pin where
  "TEMPERATURE_PIN = A1"

definition GAS_SENSOR_PIN :: pin where
  "GAS_SENSOR_PIN = A2"

definition WATER_PUMP_PIN :: pin where
  "WATER_PUMP_PIN = DigitalPin 7"

record SensorData =
  soilMoisture :: int
  temperature :: cfloat
  gasReading :: int
  irrigationStatus :: bool

text \<open>The function \<^verbatim>\<open>setup()\<close> of the sketch (its plain name is reserved in Isabelle).\<close>

definition sketch_setup :: "hw \<Rightarrow> hw" where
  "sketch_setup s0 =
     (let s1 = Serial_begin 9600 s0;
          s2 = pinMode SOIL_MOISTURE_PIN INPUT s1;
          s3 = pinMode TEMPERATURE_PIN INPUT s2;
          s4 = pinMode GAS_SENSOR_PIN INPUT s3;
          s5 = pinMode WATER_PUMP_PIN OUTPUT s4;
          s6 = digitalWrite WATER_PUMP_PIN LOW s5;
          s7 = Serial_println_str ''Edge Computing Irrigation Monitoring System'' s6
      in Serial_println_str ''-------------------------------------------'' s7)"

text \<open>
  Lines 59 to 63 of \<^verbatim>\<open>readTemperature\<close>, as a function of the reading once converted to
  \<^verbatim>\<open>float\<close> (the conversion C++ inserts in \<^verbatim>\<open>tempReading * ...\<close>). The first line is computed
  in \<^verbatim>\<open>float\<close>; the literals \<^verbatim>\<open>0.5\<close> and \<^verbatim>\<open>100.0\<close> are \<^verbatim>\<open>double\<close>, so the second line is
  computed in \<^verbatim>\<open>double\<close> (format \<open>dbl\<close>) and converted to \<^verbatim>\<open>float\<close> by the initialisation.
\<close>

definition temperatureOfReading :: "fmt \<Rightarrow> cfloat \<Rightarrow> cfloat" where
  "temperatureOfReading dbl tempReading =
     (let voltage = fmul Binary32 tempReading
                      (fdiv Binary32 VOLTAGE_REF (int_to_float ADC_RESOLUTION));
          temperatureC = fcast Binary32 (fmul dbl (fsub dbl voltage (Finite (1 / 2))) (Finite 100))
      in temperatureC)"

definition readTemperature :: "fmt \<Rightarrow> hw \<Rightarrow> cfloat \<times> hw" where
  "readTemperature dbl s =
     (let (tempReading, s') = analogRead TEMPERATURE_PIN s
      in (temperatureOfReading dbl (int_to_float tempReading), s'))"

definition readSoilMoisture :: "hw \<Rightarrow> int \<times> hw" where
  "readSoilMoisture s = analogRead SOIL_MOISTURE_PIN s"

definition readGasSensor :: "hw \<Rightarrow> int \<times> hw" where
  "readGasSensor s = analogRead GAS_SENSOR_PIN s"

definition controlIrrigation :: "bool \<Rightarrow> hw \<Rightarrow> hw" where
  "controlIrrigation irrigate s =
     (if irrigate
      then Serial_println_str ''IRRIGATION ACTIVATED'' (digitalWrite WATER_PUMP_PIN HIGH s)
      else Serial_println_str ''No irrigation required'' (digitalWrite WATER_PUMP_PIN LOW s))"

text \<open>
  The unit literal of line 108 is the five bytes \<^verbatim>\<open>C3 82 C2 B0 43\<close> in the source file: the
  UTF-8 text of the degree sign and \<^verbatim>\<open>C\<close> (\<^verbatim>\<open>C2 B0 43\<close>) after the two bytes \<^verbatim>\<open>C3 82\<close>.
\<close>

definition degree_C :: string where
  "degree_C = [CHR 0xC2, CHR 0xB0, CHR ''C'']"

definition unit_literal :: string where
  "unit_literal = [CHR 0xC3, CHR 0x82] @ degree_C @ '' | Gas Reading: ''"

definition logSensorData :: "SensorData \<Rightarrow> hw \<Rightarrow> hw" where
  "logSensorData data s0 =
     (let s1 = Serial_println_str (CHR 0x0A # ''--- Sensor Data Log ---'') s0;
          s2 = Serial_print_str ''Soil Moisture: '' s1;
          s3 = Serial_print_int (soilMoisture data) s2;
          s4 = Serial_print_str '' | Temperature: '' s3;
          s5 = Serial_print_float (temperature data) s4;
          s6 = Serial_print_str unit_literal s5;
          s7 = Serial_print_int (gasReading data) s6;
          s8 = Serial_print_str '' | Irrigation Status: '' s7
      in Serial_println_str (if irrigationStatus data then ''REQUIRED'' else ''NOT NEEDED'') s8)"

definition loop :: "fmt \<Rightarrow> hw \<Rightarrow> hw" where
  "loop dbl s0 =
     (let (soilMoisture, s1) = readSoilMoisture s0;
          (temperature, s2) = readTemperature dbl s1;
          (gasReading, s3) = readGasSensor s2;
          irrigationNeeded = shouldIrrigate soilMoisture temperature gasReading;
          currentData = \<lparr>soilMoisture = soilMoisture, temperature = temperature,
                         gasReading = gasReading, irrigationStatus = irrigationNeeded\<rparr>;
          s4 = logSensorData currentData s3;
          s5 = controlIrrigation irrigationNeeded s4
      in delay SAMPLING_INTERVAL s5)"

text \<open>
  Lines 115 to 129 of \<^verbatim>\<open>loop\<close> alone: the record \<^verbatim>\<open>currentData\<close>, the flag
  \<^verbatim>\<open>irrigationNeeded\<close> and the board state the moment before \<^verbatim>\<open>logSensorData\<close> is called.
\<close>

definition loop_locals :: "fmt \<Rightarrow> hw \<Rightarrow> SensorData \<times> bool \<times> hw" where
  "loop_locals dbl s0 =
     (let (soilMoisture, s1) = readSoilMoisture s0;
          (temperature, s2) = readTemperature dbl s1;
          (gasReading, s3) = readGasSensor s2;
          irrigationNeeded = shouldIrrigate soilMoisture temperature gasReading;
          currentData = \<lparr>soilMoisture = soilMoisture, temperature = temperature,
                         gasReading = gasReading, irrigationStatus = irrigationNeeded\<rparr>
      in (currentData, irrigationNeeded, s3))"

text \<open>
  Modelled from the spec: the driver that calls \<^verbatim>\<open>setup()\<close> and \<^verbatim>\<open>loop()\<close> is the Arduino core's
  \<^verbatim>\<open>main\<close>, which the sketch does not contain. Initialization is run once before the loop,
  and the loop is never left; \<open>arduino_main dbl n\<close> is the run up to the end of the \<open>n\<close>-th
  iteration.
\<close>

definition arduino_main :: "fmt \<Rightarrow> nat \<Rightarrow> hw \<Rightarrow> hw" where
  "arduino_main dbl n s = (loop dbl ^^ n) (sketch_setup s)"

section \<open>Vocabulary of the statements\<close>

text \<open>\<open>close_to tol x y\<close>: the datum \<open>x\<close> is finite and at most \<open>tol\<close> away from \<open>y\<close>.\<close>

definition close_to :: "rat \<Rightarrow> cfloat \<Rightarrow> rat \<Rightarrow> bool" where
  "close_to tol x y = (case x of Finite a \<Rightarrow> \<bar>a - y\<bar> \<le> tol | _ \<Rightarrow> False)"

text \<open>The calls one run of \<^verbatim>\<open>controlIrrigation\<close>, \<^verbatim>\<open>logSensorData\<close> and \<^verbatim>\<open>setup()\<close> makes.\<close>

definition control_calls :: "bool \<Rightarrow> io_call list" where
  "control_calls b =
     (if b then [DigitalWrite (DigitalPin 7) HIGH, SerialPrintlnStr ''IRRIGATION ACTIVATED'']
      else [DigitalWrite (DigitalPin 7) LOW, SerialPrintlnStr ''No irrigation required''])"

definition log_calls :: "SensorData \<Rightarrow> io_call list" where
  "log_calls d =
     [SerialPrintlnStr (CHR 0x0A # ''--- Sensor Data Log ---''),
      SerialPrintStr ''Soil Moisture: '',
      SerialPrintInt (soilMoisture d),
      SerialPrintStr '' | Temperature: '',
      SerialPrintFloat (temperature d),
      SerialPrintStr ([CHR 0xC3, CHR 0x82, CHR 0xC2, CHR 0xB0] @ ''C | Gas Reading: ''),
      SerialPrintInt (gasReading d),
      SerialPrintStr '' | Irrigation Status: '',
      SerialPrintlnStr (if irrigationStatus d then ''REQUIRED'' else ''NOT NEEDED'')]"

definition setup_calls :: "io_call list" where
  "setup_calls =
     [SerialBegin 9600,
      PinMode A0 INPUT, PinMode A1 INPUT, PinMode A2 INPUT, PinMode (DigitalPin 7) OUTPUT,
      DigitalWrite (DigitalPin 7) LOW,
      SerialPrintlnStr ''Edge Computing Irrigation Monitoring System'',
      SerialPrintlnStr ''-------------------------------------------'']"

text \<open>
  The snapshot of the iteration whose first read is the \<open>k\<close>-th of the run, and the calls
  that iteration makes, in order: three reads, the log block, the actuator, the wait.
\<close>

definition cycle_data :: "fmt \<Rightarrow> (nat \<Rightarrow> pin \<Rightarrow> int) \<Rightarrow> nat \<Rightarrow> SensorData" where
  "cycle_data dbl ain k =
     (let m = ain k A0;
          t = temperatureOfReading dbl (int_to_float (ain (k + 1) A1));
          g = ain (k + 2) A2
      in \<lparr>soilMoisture = m, temperature = t, gasReading = g,
          irrigationStatus = shouldIrrigate m t g\<rparr>)"

definition cycle_calls :: "fmt \<Rightarrow> (nat \<Rightarrow> pin \<Rightarrow> int) \<Rightarrow> nat \<Rightarrow> io_call list" where
  "cycle_calls dbl ain k =
     [AnalogRead A0 (ain k A0), AnalogRead A1 (ain (k + 1) A1), AnalogRead A2 (ain (k + 2) A2)]
     @ log_calls (cycle_data dbl ain k)
     @ control_calls (irrigationStatus (cycle_data dbl ain k))
     @ [Delay 5000]"

section \<open>What each function does to the board\<close>

lemma controlIrrigation_state:
  "controlIrrigation b s =
     s\<lparr>pinLevels := (pinLevels s)(DigitalPin 7 \<mapsto> (if b then HIGH else LOW)),
       calls := calls s @ control_calls b\<rparr>"
  by (simp add: controlIrrigation_def Serial_println_str_def digitalWrite_def
      WATER_PUMP_PIN_def control_calls_def)

lemma logSensorData_state:
  "logSensorData d s = s\<lparr>calls := calls s @ log_calls d\<rparr>"
  by (simp add: logSensorData_def Let_def Serial_println_str_def Serial_print_str_def
      Serial_print_int_def Serial_print_float_def log_calls_def unit_literal_def degree_C_def)

lemma readTemperature_state:
  "readTemperature dbl s =
     (temperatureOfReading dbl (int_to_float (analogIn s (reads s) A1)),
      s\<lparr>reads := reads s + 1,
        calls := calls s @ [AnalogRead A1 (analogIn s (reads s) A1)]\<rparr>)"
  by (simp add: readTemperature_def analogRead_def Let_def TEMPERATURE_PIN_def)

lemma loop_locals_state:
  "loop_locals dbl s =
     (cycle_data dbl (analogIn s) (reads s),
      irrigationStatus (cycle_data dbl (analogIn s) (reads s)),
      s\<lparr>reads := reads s + 3,
        calls := calls s @ [AnalogRead A0 (analogIn s (reads s) A0),
                            AnalogRead A1 (analogIn s (reads s + 1) A1),
                            AnalogRead A2 (analogIn s (reads s + 2) A2)]\<rparr>)"
  by (simp add: loop_locals_def readSoilMoisture_def readTemperature_def readGasSensor_def
      analogRead_def Let_def cycle_data_def SOIL_MOISTURE_PIN_def TEMPERATURE_PIN_def
      GAS_SENSOR_PIN_def)

lemma loop_via_locals:
  "loop dbl s =
     (case loop_locals dbl s of
        (currentData, irrigationNeeded, s3) \<Rightarrow>
          delay SAMPLING_INTERVAL
            (controlIrrigation irrigationNeeded (logSensorData currentData s3)))"
  by (simp add: loop_def loop_locals_def Let_def split_def)

lemma loop_state:
  "loop dbl s =
     s\<lparr>pinLevels := (pinLevels s)(DigitalPin 7 \<mapsto>
          (if irrigationStatus (cycle_data dbl (analogIn s) (reads s)) then HIGH else LOW)),
       reads := reads s + 3,
       waited := waited s + 5000,
       calls := calls s @ cycle_calls dbl (analogIn s) (reads s)\<rparr>"
  by (simp add: loop_via_locals loop_locals_state controlIrrigation_state logSensorData_state
      delay_def SAMPLING_INTERVAL_def cycle_calls_def)

lemma sketch_setup_state:
  "sketch_setup s =
     s\<lparr>pinModes := (pinModes s)(A0 \<mapsto> INPUT, A1 \<mapsto> INPUT, A2 \<mapsto> INPUT,
                                  DigitalPin 7 \<mapsto> OUTPUT),
       pinLevels := (pinLevels s)(DigitalPin 7 \<mapsto> LOW),
       calls := calls s @ setup_calls\<rparr>"
  by (simp add: sketch_setup_def Let_def Serial_begin_def pinMode_def digitalWrite_def
      Serial_println_str_def setup_calls_def SOIL_MOISTURE_PIN_def TEMPERATURE_PIN_def
      GAS_SENSOR_PIN_def WATER_PUMP_PIN_def)

lemma loop_funpow_state:
  "analogIn ((loop dbl ^^ n) s) = analogIn s \<and>
   reads ((loop dbl ^^ n) s) = reads s + 3 * n \<and>
   waited ((loop dbl ^^ n) s) = waited s + n * 5000 \<and>
   pinModes ((loop dbl ^^ n) s) = pinModes s \<and>
   calls ((loop dbl ^^ n) s) =
     calls s @ concat (map (\<lambda>i. cycle_calls dbl (analogIn s) (reads s + 3 * i)) [0..<n])"
proof (induction n)
  case 0
  show ?case by simp
next
  case (Suc n)
  then show ?case by (simp add: loop_state)
qed

section \<open>The rounding model: exponent and error bound\<close>

text \<open>
  \<open>ilog2\<close> is the binary exponent (\<open>ilog2_le\<close>, \<open>ilog2_less\<close>), and rounding a value of
  magnitude at most \<open>2\<^sup>2\<^sup>0\<close> gives a finite datum with relative error at most \<open>2\<^sup>-\<^sup>2\<^sup>4\<close>, up to
  the spacing of the subnormal numbers (\<open>fround_error\<close>), in both formats.
\<close>

lemma pow2_powi: "pow2 e = 2 powi e"
  by (simp add: pow2_def power_int_def power_one_over inverse_eq_divide)

lemma round_half_even_error: "\<bar>of_int (round_half_even y) - y\<bar> \<le> 1 / 2"
proof -
  have "of_int \<lfloor>y\<rfloor> \<le> y" "y < of_int \<lfloor>y\<rfloor> + 1"
    by linarith+
  then show ?thesis
    by (simp add: round_half_even_def Let_def)
qed

lemma ilog2_le:
  assumes "0 < x"
  shows "pow2 (ilog2 x) \<le> x"
proof -
  obtain a b where q: "quotient_of x = (a, b)"
    by (cases "quotient_of x")
  have b: "0 < b" using q by (rule quotient_of_denom_pos)
  have x: "x = of_int a / of_int b" using q by (rule quotient_of_div)
  have a: "0 < a"
    using assms b by (simp add: x zero_less_divide_iff)
  define e0 where "e0 = bitlen a - bitlen b"
  show ?thesis
  proof (cases "pow2 e0 \<le> x")
    case True
    then show ?thesis by (simp add: ilog2_def q e0_def)
  next
    case False
    have la: "2 ^ nat (bitlen a - 1) \<le> a" using bitlen_bounds [OF a] by simp
    have lb: "b < 2 ^ nat (bitlen b)" using bitlen_bounds [OF b] by simp
    have pa: "0 < bitlen a" using a bitlen_eq_zero_iff [of a] bitlen_nonneg [of a] by linarith
    have pb: "0 \<le> bitlen b" by (rule bitlen_nonneg)
    have ra: "(2::rat) powi (bitlen a - 1) \<le> of_int a"
    proof -
      have "(2::rat) powi (bitlen a - 1) = 2 ^ nat (bitlen a - 1)"
        using pa by (simp add: power_int_def)
      also have "\<dots> = of_int (2 ^ nat (bitlen a - 1))" by simp
      also have "\<dots> \<le> of_int a" using la by (simp only: of_int_le_iff)
      finally show ?thesis .
    qed
    have rb: "of_int b \<le> (2::rat) powi (bitlen b)"
    proof -
      have "(of_int b :: rat) \<le> of_int (2 ^ nat (bitlen b))" using lb by (simp only: of_int_le_iff)
      also have "\<dots> = 2 ^ nat (bitlen b)" by simp
      also have "\<dots> = (2::rat) powi (bitlen b)" using pb by (simp add: power_int_def)
      finally show ?thesis .
    qed
    have "pow2 (e0 - 1) = 2 powi (bitlen a - 1) / 2 powi (bitlen b)"
      by (simp add: pow2_powi e0_def power_int_diff [symmetric] algebra_simps)
    also have "\<dots> \<le> of_int a / 2 powi (bitlen b)"
      using ra by (simp add: divide_right_mono)
    also have "\<dots> \<le> of_int a / of_int b"
      using rb a b by (simp add: frac_le)
    finally have "pow2 (e0 - 1) \<le> x" by (simp add: x)
    with False show ?thesis by (simp add: ilog2_def q e0_def)
  qed
qed


lemma ilog2_less:
  assumes "0 < x"
  shows "x < pow2 (ilog2 x + 1)"
proof -
  obtain a b where q: "quotient_of x = (a, b)"
    by (cases "quotient_of x")
  have b: "0 < b" using q by (rule quotient_of_denom_pos)
  have x: "x = of_int a / of_int b" using q by (rule quotient_of_div)
  have a: "0 < a"
    using assms b by (simp add: x zero_less_divide_iff)
  define e0 where "e0 = bitlen a - bitlen b"
  show ?thesis
  proof (cases "pow2 e0 \<le> x")
    case True
    have la: "a < 2 ^ nat (bitlen a)" using bitlen_bounds [OF a] by simp
    have lb: "2 ^ nat (bitlen b - 1) \<le> b" using bitlen_bounds [OF b] by simp
    have pa: "0 \<le> bitlen a" by (rule bitlen_nonneg)
    have pb: "0 < bitlen b" using b bitlen_eq_zero_iff [of b] bitlen_nonneg [of b] by linarith
    have ra: "of_int a < (2::rat) powi (bitlen a)"
    proof -
      have "(of_int a :: rat) < of_int (2 ^ nat (bitlen a))" using la by (simp only: of_int_less_iff)
      also have "\<dots> = 2 ^ nat (bitlen a)" by simp
      also have "\<dots> = (2::rat) powi (bitlen a)" using pa by (simp add: power_int_def)
      finally show ?thesis .
    qed
    have rb: "(2::rat) powi (bitlen b - 1) \<le> of_int b"
    proof -
      have "(2::rat) powi (bitlen b - 1) = 2 ^ nat (bitlen b - 1)"
        using pb by (simp add: power_int_def)
      also have "\<dots> = of_int (2 ^ nat (bitlen b - 1))" by simp
      also have "\<dots> \<le> of_int b" using lb by (simp only: of_int_le_iff)
      finally show ?thesis .
    qed
    have "x < 2 powi (bitlen a) / of_int b"
      using ra b by (simp add: x divide_strict_right_mono)
    also have "\<dots> \<le> 2 powi (bitlen a) / 2 powi (bitlen b - 1)"
      using rb by (intro frac_le) simp_all
    also have "\<dots> = pow2 (e0 + 1)"
      by (simp add: pow2_powi e0_def power_int_diff [symmetric] algebra_simps)
    finally show ?thesis using True by (simp add: ilog2_def q e0_def)
  next
    case False
    then show ?thesis by (simp add: ilog2_def q e0_def)
  qed
qed

lemma powi_neg_numeral: "(2::rat) powi (- int n) = 1 / 2 ^ n"
  by (simp add: power_int_minus_divide)

lemma fmt_bounds:
  "24 \<le> prec f" "emin f - prec f + 1 \<le> - 149" "21 \<le> emax f + 1"
  by (cases f; simp)+

lemma fround_error:
  assumes small: "\<bar>x\<bar> \<le> 2 ^ 20"
  shows "\<exists>r. fround f x = Finite r \<and> \<bar>r - x\<bar> \<le> \<bar>x\<bar> / 2 ^ 24 + 1 / 2 ^ 150"
proof (cases "x = 0")
  case True
  then show ?thesis by (simp add: fround_def)
next
  case False
  define e where "e = max (ilog2 \<bar>x\<bar>) (emin f)"
  define u where "u = pow2 (e - prec f + 1)"
  define r where "r = of_int (round_half_even (x / u)) * u"
  have u_pos: "0 < u" by (simp add: u_def pow2_powi)
  have "r - x = (of_int (round_half_even (x / u)) - x / u) * u"
    using u_pos by (simp add: r_def left_diff_distrib)
  then have "\<bar>r - x\<bar> = \<bar>of_int (round_half_even (x / u)) - x / u\<bar> * u"
    using u_pos by (simp add: abs_mult)
  also have "\<dots> \<le> (1 / 2) * u"
    using round_half_even_error [of "x / u"] u_pos by (simp only: mult_right_mono less_imp_le)
  finally have err: "\<bar>r - x\<bar> \<le> u / 2" by simp
  have u_le: "u \<le> \<bar>x\<bar> / 2 ^ 23 + 1 / 2 ^ 149"
  proof (cases "emin f \<le> ilog2 \<bar>x\<bar>")
    case True
    then have e: "e = ilog2 \<bar>x\<bar>" by (simp add: e_def)
    have "u = 2 powi (ilog2 \<bar>x\<bar> + (1 - prec f))"
      by (simp add: u_def e pow2_powi algebra_simps)
    also have "\<dots> = 2 powi (ilog2 \<bar>x\<bar>) * 2 powi (1 - prec f)"
      by (rule power_int_add) simp
    also have "\<dots> \<le> \<bar>x\<bar> * 2 powi (1 - prec f)"
      using ilog2_le [of "\<bar>x\<bar>"] False by (simp add: pow2_powi)
    also have "\<dots> \<le> \<bar>x\<bar> * 2 powi (- int 23)"
    proof -
      have "(2::rat) powi (1 - prec f) \<le> 2 powi (- int 23)"
        using fmt_bounds(1) [of f] by (intro power_int_increasing) simp_all
      then show ?thesis by (rule mult_left_mono) simp
    qed
    also have "\<dots> = \<bar>x\<bar> / 2 ^ 23" by (simp only: powi_neg_numeral) simp
    finally show ?thesis by simp
  next
    case False
    then have e: "e = emin f" by (simp add: e_def)
    have "u = 2 powi (emin f - prec f + 1)" by (simp add: u_def e pow2_powi)
    also have "\<dots> \<le> 2 powi (- int 149)"
      using fmt_bounds(2) [of f] by (intro power_int_increasing) simp_all
    also have "\<dots> = 1 / 2 ^ 149" by (simp only: powi_neg_numeral)
    finally show ?thesis by (simp add: add_increasing)
  qed
  from err u_le have bound: "\<bar>r - x\<bar> \<le> \<bar>x\<bar> / 2 ^ 24 + 1 / 2 ^ 150" by simp
  have "\<bar>r\<bar> \<le> \<bar>x\<bar> + \<bar>r - x\<bar>" by simp
  also have "\<dots> < 2 ^ 21" using bound small by simp
  also have "(2::rat) ^ 21 = 2 powi (int 21)" by (simp only: power_int_of_nat)
  also have "\<dots> \<le> 2 powi (emax f + 1)"
    using fmt_bounds(3) [of f] by (intro power_int_increasing) simp_all
  finally have "\<not> pow2 (emax f + 1) \<le> \<bar>r\<bar>" by (simp add: pow2_powi)
  then have "fround f x = Finite r"
    using False by (simp add: fround_def Let_def e_def [symmetric] u_def [symmetric] r_def [symmetric])
  with bound show ?thesis by blast
qed

text \<open>
  The same bound for a value known to lie within \<open>B\<close>, with the constants written out:
  \<open>2\<^sup>2\<^sup>0 = 1048576\<close> and \<open>2\<^sup>2\<^sup>4 = 16777216\<close>.
\<close>

lemma fround_close:
  assumes "\<bar>x\<bar> \<le> B" and "B \<le> 1048576"
  shows "\<exists>r. fround f x = Finite r \<and> \<bar>r - x\<bar> \<le> B / 16777216 + 1 / 10000000000"
proof -
  have "\<bar>x\<bar> \<le> 2 ^ 20" using assms by simp
  from fround_error [OF this, of f]
  obtain r where r: "fround f x = Finite r"
    and e: "\<bar>r - x\<bar> \<le> \<bar>x\<bar> / 2 ^ 24 + 1 / 2 ^ 150"
    by auto
  have "\<bar>x\<bar> / 2 ^ 24 \<le> B / 16777216" using assms(1) by simp
  moreover have "(1::rat) / 2 ^ 150 \<le> 1 / 10000000000" by simp
  ultimately have "\<bar>r - x\<bar> \<le> B / 16777216 + 1 / 10000000000"
    using e by linarith
  with r show ?thesis by blast
qed

section \<open>The temperature conversion at particular readings\<close>

lemma temperature_at_0:
  "temperatureOfReading dbl (int_to_float 0) = Finite (- 50)"
  by (cases dbl; hypsubst; code_simp)

lemma temperature_at_1023:
  "temperatureOfReading dbl (int_to_float 1023) = Finite 450"
  by (cases dbl; hypsubst; code_simp)

lemma temperature_at_102_3:
  "temperatureOfReading dbl (fround Binary32 (1023 / 10)) = Finite 0"
  by (cases dbl; hypsubst; code_simp)

lemma temperature_at_102:
  "temperatureOfReading dbl (int_to_float 102) = Finite (- (76875 / 524288))"
  by (cases dbl; hypsubst; code_simp)

lemma volts_per_code:
  "fdiv Binary32 VOLTAGE_REF (int_to_float ADC_RESOLUTION) = Finite (5248005 / 1073741824)"
  by code_simp

text \<open>
  Over the whole range of the converter the computed temperature is within a thousandth of
  a degree of the exact value of the formula.
\<close>

lemma temperatureOfReading_accuracy:
  assumes c: "0 \<le> c" "c \<le> 1023"
  shows "close_to (1 / 1000) (temperatureOfReading dbl (int_to_float c))
           ((of_int c * (5 / 1023) - 1 / 2) * 100)"
proof -
  define C :: rat where "C = of_int c"
  define E :: rat where "E = C * (5 / 1023)"
  have C: "0 \<le> C" "C \<le> 1023" using c by (simp_all add: C_def)
  have E: "0 \<le> E" "E \<le> 5" using C by (simp_all add: E_def)
  have "\<bar>C\<bar> \<le> 1024" using C by linarith
  from fround_close [OF this, of Binary32]
  obtain fc where fc: "int_to_float c = Finite fc"
    and fc_err: "\<bar>fc - C\<bar> \<le> 1024 / 16777216 + 1 / 10000000000"
    by (auto simp add: int_to_float_def C_def)
  have 1: "\<bar>fc - C\<bar> \<le> 1 / 10000" using fc_err by linarith
  have "\<bar>fc * (5248005 / 1073741824)\<bar> \<le> 6" using 1 C by linarith
  from fround_close [OF this, of Binary32]
  obtain v where v: "fround Binary32 (fc * (5248005 / 1073741824)) = Finite v"
    and v_err: "\<bar>v - fc * (5248005 / 1073741824)\<bar> \<le> 6 / 16777216 + 1 / 10000000000"
    by auto
  have 2: "\<bar>v - E\<bar> \<le> 1 / 1000000" unfolding E_def using v_err 1 C by linarith
  have "\<bar>v - 1 / 2\<bar> \<le> 5" using 2 E by linarith
  from fround_close [OF this, of dbl]
  obtain d where d: "fround dbl (v - 1 / 2) = Finite d"
    and d_err: "\<bar>d - (v - 1 / 2)\<bar> \<le> 5 / 16777216 + 1 / 10000000000"
    by auto
  have 3: "\<bar>d - (E - 1 / 2)\<bar> \<le> 1 / 500000" using d_err 2 by linarith
  have "\<bar>d * 100\<bar> \<le> 451" using 3 E by linarith
  from fround_close [OF this, of dbl]
  obtain m where m: "fround dbl (d * 100) = Finite m"
    and m_err: "\<bar>m - d * 100\<bar> \<le> 451 / 16777216 + 1 / 10000000000"
    by auto
  have 4: "\<bar>m - (E * 100 - 50)\<bar> \<le> 3 / 10000" using m_err 3 by linarith
  have "\<bar>m\<bar> \<le> 451" using 4 E by linarith
  from fround_close [OF this, of Binary32]
  obtain t where t: "fround Binary32 m = Finite t"
    and t_err: "\<bar>t - m\<bar> \<le> 451 / 16777216 + 1 / 10000000000"
    by auto
  have 5: "\<bar>t - (E * 100 - 50)\<bar> \<le> 1 / 1000" using t_err 4 by linarith
  have exact: "(of_int c * (5 / 1023) - 1 / 2) * 100 = E * 100 - 50"
    by (simp add: E_def C_def algebra_simps)
  have s1: "fmul Binary32 (Finite fc) (Finite (5248005 / 1073741824)) = Finite v"
    by (simp only: fmul.simps v)
  have s2: "fsub dbl (Finite v) (Finite (1 / 2)) = Finite d"
    by (simp only: fsub.simps d)
  have s3: "fmul dbl (Finite d) (Finite 100) = Finite m"
    by (simp only: fmul.simps m)
  have s4: "fcast Binary32 (Finite m) = Finite t"
    by (simp only: fcast.simps t)
  have "temperatureOfReading dbl (int_to_float c) = Finite t"
    by (simp only: temperatureOfReading_def Let_def volts_per_code fc s1 s2 s3 s4)
  with 5 show ?thesis by (simp only: close_to_def exact cfloat.case)
qed

section \<open>The claims\<close>

text \<open>
  C1. For every integer moisture, every \<^verbatim>\<open>float\<close> temperature (NaN and the infinities
  included) and every integer gas, \<^verbatim>\<open>shouldIrrigate\<close> returns true if and only if
  \<open>moisture < MOISTURE_THRESHOLD\<close> (300), or both \<open>temperature > TEMP_THRESHOLD\<close> (30.0) and
  \<open>gas > GAS_THRESHOLD\<close> (400). In particular it returns true for every moisture below the
  threshold whatever temperature and gas are, and for a moisture at or above the threshold
  it returns true exactly when both secondary conditions hold.
\<close>

theorem shouldIrrigate_rule:
  "(shouldIrrigate moisture temp gas \<longleftrightarrow>
      moisture < 300 \<or> (fgreater temp (Finite 30) \<and> 400 < gas))
   \<and> (moisture < MOISTURE_THRESHOLD \<longrightarrow> shouldIrrigate moisture temp gas)
   \<and> (MOISTURE_THRESHOLD \<le> moisture \<longrightarrow>
        (shouldIrrigate moisture temp gas \<longleftrightarrow>
           fgreater temp TEMP_THRESHOLD \<and> GAS_THRESHOLD < gas))"
  by (auto simp add: shouldIrrigate_def MOISTURE_THRESHOLD_def TEMP_THRESHOLD_def
      GAS_THRESHOLD_def)

theorem shouldIrrigate_rule_witness:
  "(250 < MOISTURE_THRESHOLD \<and> shouldIrrigate 250 (Finite 20) 100)
   \<and> (MOISTURE_THRESHOLD \<le> 500 \<and> shouldIrrigate 500 (Finite 35) 450)
   \<and> (MOISTURE_THRESHOLD \<le> 500 \<and> \<not> shouldIrrigate 500 (Finite 35) 100)"
proof -
  have low: "250 < MOISTURE_THRESHOLD"
    by (simp add: MOISTURE_THRESHOLD_def)
  have high: "MOISTURE_THRESHOLD \<le> 500"
    by (simp add: MOISTURE_THRESHOLD_def)
  have hot: "fgreater (Finite 35) TEMP_THRESHOLD"
    by (simp add: fgreater_def TEMP_THRESHOLD_def)
  have gas: "GAS_THRESHOLD < 450" "\<not> GAS_THRESHOLD < 100"
    by (simp_all add: GAS_THRESHOLD_def)
  from shouldIrrigate_rule [of 250 "Finite 20" 100] low
  have s1: "shouldIrrigate 250 (Finite 20) 100" by blast
  from shouldIrrigate_rule [of 500 "Finite 35" 450] high hot gas(1)
  have s2: "shouldIrrigate 500 (Finite 35) 450" by blast
  from shouldIrrigate_rule [of 500 "Finite 35" 100] high gas(2)
  have s3: "\<not> shouldIrrigate 500 (Finite 35) 100" by blast
  from low high s1 s2 s3 show ?thesis by blast
qed

text \<open>
  C2. The three comparisons of \<^verbatim>\<open>shouldIrrigate\<close> are strict. With moisture, temperature
  and gas all exactly at their thresholds the result is false. A moisture at its threshold
  does not count as low (the result is then the secondary condition alone), a temperature
  at its threshold does not count as high, and a gas reading at its threshold does not
  count as high; one step beyond each threshold the condition does trigger.
\<close>

theorem shouldIrrigate_strict:
  "\<not> shouldIrrigate MOISTURE_THRESHOLD TEMP_THRESHOLD GAS_THRESHOLD
   \<and> \<not> shouldIrrigate 300 (Finite 30) 400
   \<and> shouldIrrigate MOISTURE_THRESHOLD temp gas =
       (fgreater temp TEMP_THRESHOLD \<and> GAS_THRESHOLD < gas)
   \<and> \<not> shouldIrrigate MOISTURE_THRESHOLD TEMP_THRESHOLD gas
   \<and> \<not> shouldIrrigate MOISTURE_THRESHOLD temp GAS_THRESHOLD
   \<and> shouldIrrigate (MOISTURE_THRESHOLD - 1) temp gas
   \<and> shouldIrrigate MOISTURE_THRESHOLD (Finite (30 + 1 / 2 ^ 19)) (GAS_THRESHOLD + 1)"
  by (simp add: shouldIrrigate_def MOISTURE_THRESHOLD_def TEMP_THRESHOLD_def
      GAS_THRESHOLD_def fgreater_def)

text \<open>
  C10. \<^verbatim>\<open>shouldIrrigate\<close> is antitone in its moisture argument: if it returns true for a
  moisture \<open>m\<close>, it returns true for every moisture \<open>m' \<le> m\<close> with the same temperature and
  gas.
\<close>

theorem shouldIrrigate_antitone:
  "m' \<le> m \<Longrightarrow> shouldIrrigate m temp gas \<Longrightarrow> shouldIrrigate m' temp gas"
  by (auto simp add: shouldIrrigate_def)

theorem shouldIrrigate_antitone_witness:
  "(100 :: int) \<le> 299 \<and> shouldIrrigate 299 (Finite 20) 100 \<and> shouldIrrigate 100 (Finite 20) 100"
proof -
  have le: "(100 :: int) \<le> 299" by simp
  have hi: "shouldIrrigate 299 (Finite 20) 100"
    by (simp add: shouldIrrigate_def MOISTURE_THRESHOLD_def)
  from shouldIrrigate_antitone [OF le hi] le hi show ?thesis by simp
qed

text \<open>
  C5. \<^verbatim>\<open>controlIrrigation(true)\<close> sets the pump line (digital pin 7) to \<open>HIGH\<close> and sends
  the fixed line \<^verbatim>\<open>IRRIGATION ACTIVATED\<close>; \<^verbatim>\<open>controlIrrigation(false)\<close> sets the pump line to
  \<open>LOW\<close> and sends the fixed line \<^verbatim>\<open>No irrigation required\<close>. Nothing else of the board
  changes (the resulting state is the given one with the pump level and the two calls
  added), and the line is sent on every call, whatever the state before.
\<close>

theorem controlIrrigation_effects:
  "controlIrrigation True s =
     s\<lparr>pinLevels := (pinLevels s)(WATER_PUMP_PIN \<mapsto> HIGH),
       calls := calls s @ [DigitalWrite WATER_PUMP_PIN HIGH,
                           SerialPrintlnStr ''IRRIGATION ACTIVATED'']\<rparr>
   \<and> controlIrrigation False s =
     s\<lparr>pinLevels := (pinLevels s)(WATER_PUMP_PIN \<mapsto> LOW),
       calls := calls s @ [DigitalWrite WATER_PUMP_PIN LOW,
                           SerialPrintlnStr ''No irrigation required'']\<rparr>
   \<and> pinLevels (controlIrrigation True s) WATER_PUMP_PIN = Some HIGH
   \<and> pinLevels (controlIrrigation False s) WATER_PUMP_PIN = Some LOW
   \<and> serial_text showi showf [DigitalWrite WATER_PUMP_PIN HIGH,
                               SerialPrintlnStr ''IRRIGATION ACTIVATED'']
       = ''IRRIGATION ACTIVATED'' @ [CHR 0x0D, CHR 0x0A]
   \<and> serial_text showi showf [DigitalWrite WATER_PUMP_PIN LOW,
                               SerialPrintlnStr ''No irrigation required'']
       = ''No irrigation required'' @ [CHR 0x0D, CHR 0x0A]"
  by (simp add: controlIrrigation_state control_calls_def WATER_PUMP_PIN_def serial_text_def)

text \<open>
  C8. \<^verbatim>\<open>controlIrrigation\<close> is idempotent on the pump line: calling it twice in succession
  with the same flag leaves the pin levels as one call does, and both calls send the
  identical status line, so the line is logged unconditionally and not only on a change.
\<close>

theorem controlIrrigation_idempotent:
  "pinLevels (controlIrrigation b (controlIrrigation b s)) = pinLevels (controlIrrigation b s)
   \<and> pinLevels (controlIrrigation b s) WATER_PUMP_PIN = Some (if b then HIGH else LOW)
   \<and> calls (controlIrrigation b s) = calls s @ control_calls b
   \<and> calls (controlIrrigation b (controlIrrigation b s))
       = calls s @ control_calls b @ control_calls b
   \<and> serial_text showi showf (control_calls b)
       = (if b then ''IRRIGATION ACTIVATED'' else ''No irrigation required'')
         @ [CHR 0x0D, CHR 0x0A]"
  by (simp add: controlIrrigation_state WATER_PUMP_PIN_def serial_text_def control_calls_def)

text \<open>
  C6. For every snapshot, \<^verbatim>\<open>logSensorData\<close> sends a header line and then one line made of,
  in this order: the soil moisture, the temperature followed by the unit literal that
  carries the degree-Celsius marker, the gas reading, and the irrigation status as the
  token \<^verbatim>\<open>REQUIRED\<close> when the flag is true and \<^verbatim>\<open>NOT NEEDED\<close> when it is false. The header
  text starts with a line feed of its own, so an empty line precedes it; nothing but the
  serial output changes.
\<close>

theorem logSensorData_block:
  "logSensorData d s =
     s\<lparr>calls := calls s @
        [SerialPrintlnStr (CHR 0x0A # ''--- Sensor Data Log ---''),
         SerialPrintStr ''Soil Moisture: '',
         SerialPrintInt (soilMoisture d),
         SerialPrintStr '' | Temperature: '',
         SerialPrintFloat (temperature d),
         SerialPrintStr ([CHR 0xC3, CHR 0x82] @ degree_C @ '' | Gas Reading: ''),
         SerialPrintInt (gasReading d),
         SerialPrintStr '' | Irrigation Status: '',
         SerialPrintlnStr (if irrigationStatus d then ''REQUIRED'' else ''NOT NEEDED'')]\<rparr>
   \<and> serial_text showi showf (log_calls d) =
       [CHR 0x0A] @ ''--- Sensor Data Log ---'' @ [CHR 0x0D, CHR 0x0A]
       @ ''Soil Moisture: '' @ showi (soilMoisture d)
       @ '' | Temperature: '' @ showf (temperature d) @ [CHR 0xC3, CHR 0x82] @ degree_C
       @ '' | Gas Reading: '' @ showi (gasReading d)
       @ '' | Irrigation Status: ''
       @ (if irrigationStatus d then ''REQUIRED'' else ''NOT NEEDED'')
       @ [CHR 0x0D, CHR 0x0A]
   \<and> calls (logSensorData d s) = calls s @ log_calls d"
  by (simp add: logSensorData_state log_calls_def degree_C_def serial_text_def)

text \<open>
  C7. Initialization configures three input pins (\<open>A0\<close>, \<open>A1\<close>, \<open>A2\<close>) and one output pin
  (7), sets the pump line to \<open>LOW\<close> and sends the two-line startup banner. One iteration of
  \<^verbatim>\<open>loop\<close> reads the three sensors, logs the snapshot built from them and from the policy,
  drives the actuator with the policy's result and then waits \<open>SAMPLING_INTERVAL\<close>
  milliseconds, in this order. In a run of the driver the calls of the initialization
  occur once, before those of the first iteration, and the iterations follow one another.
\<close>

theorem init_then_cycles:
  "sketch_setup s =
     s\<lparr>pinModes := (pinModes s)(A0 \<mapsto> INPUT, A1 \<mapsto> INPUT, A2 \<mapsto> INPUT,
                                  DigitalPin 7 \<mapsto> OUTPUT),
       pinLevels := (pinLevels s)(DigitalPin 7 \<mapsto> LOW),
       calls := calls s @ setup_calls\<rparr>
   \<and> loop dbl s' =
     s'\<lparr>pinLevels := (pinLevels s')(DigitalPin 7 \<mapsto>
          (if irrigationStatus (cycle_data dbl (analogIn s') (reads s')) then HIGH else LOW)),
       reads := reads s' + 3,
       waited := waited s' + SAMPLING_INTERVAL,
       calls := calls s' @ cycle_calls dbl (analogIn s') (reads s')\<rparr>
   \<and> calls (arduino_main dbl n s) =
       calls s @ setup_calls
       @ concat (map (\<lambda>i. cycle_calls dbl (analogIn s) (reads s + 3 * i)) [0..<n])
   \<and> waited (arduino_main dbl n s) = waited s + n * SAMPLING_INTERVAL
   \<and> pinModes (arduino_main dbl n s) =
       (pinModes s)(A0 \<mapsto> INPUT, A1 \<mapsto> INPUT, A2 \<mapsto> INPUT, DigitalPin 7 \<mapsto> OUTPUT)"
proof -
  have init: "analogIn (sketch_setup s) = analogIn s" "reads (sketch_setup s) = reads s"
    "waited (sketch_setup s) = waited s" "calls (sketch_setup s) = calls s @ setup_calls"
    "pinModes (sketch_setup s) =
       (pinModes s)(A0 \<mapsto> INPUT, A1 \<mapsto> INPUT, A2 \<mapsto> INPUT, DigitalPin 7 \<mapsto> OUTPUT)"
    by (simp_all add: sketch_setup_state)
  have cycle: "loop dbl s' =
     s'\<lparr>pinLevels := (pinLevels s')(DigitalPin 7 \<mapsto>
          (if irrigationStatus (cycle_data dbl (analogIn s') (reads s')) then HIGH else LOW)),
       reads := reads s' + 3,
       waited := waited s' + SAMPLING_INTERVAL,
       calls := calls s' @ cycle_calls dbl (analogIn s') (reads s')\<rparr>"
    by (simp add: loop_state SAMPLING_INTERVAL_def)
  from loop_funpow_state [where dbl = dbl and n = n and s = "sketch_setup s"] init
  have run: "calls (arduino_main dbl n s) =
       calls s @ setup_calls
       @ concat (map (\<lambda>i. cycle_calls dbl (analogIn s) (reads s + 3 * i)) [0..<n])"
    "waited (arduino_main dbl n s) = waited s + n * SAMPLING_INTERVAL"
    "pinModes (arduino_main dbl n s) =
       (pinModes s)(A0 \<mapsto> INPUT, A1 \<mapsto> INPUT, A2 \<mapsto> INPUT, DigitalPin 7 \<mapsto> OUTPUT)"
    by (simp_all add: arduino_main_def SAMPLING_INTERVAL_def)
  from sketch_setup_state [of s] cycle run show ?thesis by blast
qed

text \<open>
  C9. In every iteration of \<^verbatim>\<open>loop\<close>, the snapshot handed to \<^verbatim>\<open>logSensorData\<close> and the flag
  handed to \<^verbatim>\<open>controlIrrigation\<close> agree: the snapshot's \<open>irrigationStatus\<close> is
  \<^verbatim>\<open>shouldIrrigate\<close> of the snapshot's own moisture, temperature and gas reading, and
  \<^verbatim>\<open>controlIrrigation\<close> receives that same boolean.
\<close>

theorem loop_consistent:
  "(case loop_locals dbl s of
      (currentData, irrigationNeeded, s3) \<Rightarrow>
        irrigationStatus currentData =
          shouldIrrigate (soilMoisture currentData) (temperature currentData)
            (gasReading currentData)
        \<and> irrigationNeeded = irrigationStatus currentData
        \<and> loop dbl s =
            delay SAMPLING_INTERVAL
              (controlIrrigation irrigationNeeded (logSensorData currentData s3)))"
  by (simp add: loop_via_locals loop_locals_state cycle_data_def Let_def)

text \<open>
  C3. \<^verbatim>\<open>readTemperature\<close> returns \<open>(code * (VOLTAGE_REF / ADC_RESOLUTION) - 0.5) * 100.0\<close>,
  computed in floating point, of the code the converter answers on the temperature pin,
  with \<open>VOLTAGE_REF = 5.0\<close> and \<open>ADC_RESOLUTION = 1023\<close>: for every code from 0 to 1023 the
  result is within a thousandth of the exact value of that formula. For code 0 the result
  is exactly \<open>-50.0\<close>; for code 1023 it is within a thousandth of \<open>450.0\<close>. All of this holds
  whether \<^verbatim>\<open>double\<close> is binary32 or binary64.
\<close>

theorem readTemperature_conversion:
  "fst (readTemperature dbl s) =
     temperatureOfReading dbl (int_to_float (analogIn s (reads s) TEMPERATURE_PIN))
   \<and> temperatureOfReading dbl x =
       fcast Binary32
         (fmul dbl
            (fsub dbl (fmul Binary32 x (fdiv Binary32 (Finite 5) (int_to_float 1023)))
               (Finite (1 / 2)))
            (Finite 100))
   \<and> (0 \<le> c \<and> c \<le> ADC_RESOLUTION \<longrightarrow>
        close_to (1 / 1000) (temperatureOfReading dbl (int_to_float c))
          ((of_int c * (5 / 1023) - 1 / 2) * 100))
   \<and> temperatureOfReading dbl (int_to_float 0) = Finite (- 50)
   \<and> close_to (1 / 1000) (temperatureOfReading dbl (int_to_float ADC_RESOLUTION)) 450"
proof -
  have rd: "fst (readTemperature dbl s) =
     temperatureOfReading dbl (int_to_float (analogIn s (reads s) TEMPERATURE_PIN))"
    by (simp add: readTemperature_state TEMPERATURE_PIN_def)
  have formula: "temperatureOfReading dbl x =
       fcast Binary32
         (fmul dbl
            (fsub dbl (fmul Binary32 x (fdiv Binary32 (Finite 5) (int_to_float 1023)))
               (Finite (1 / 2)))
            (Finite 100))"
    by (simp add: temperatureOfReading_def VOLTAGE_REF_def ADC_RESOLUTION_def)
  have range: "0 \<le> c \<and> c \<le> ADC_RESOLUTION \<longrightarrow>
        close_to (1 / 1000) (temperatureOfReading dbl (int_to_float c))
          ((of_int c * (5 / 1023) - 1 / 2) * 100)"
    using temperatureOfReading_accuracy [of c dbl] by (simp add: ADC_RESOLUTION_def)
  have top: "close_to (1 / 1000) (temperatureOfReading dbl (int_to_float ADC_RESOLUTION)) 450"
    by (simp add: ADC_RESOLUTION_def temperature_at_1023 close_to_def)
  from rd formula range temperature_at_0 [of dbl] top show ?thesis by blast
qed

theorem readTemperature_conversion_witness:
  "(0 :: int) \<le> 512 \<and> 512 \<le> ADC_RESOLUTION
   \<and> close_to (1 / 1000) (temperatureOfReading Binary32 (int_to_float 512))
       ((of_int 512 * (5 / 1023) - 1 / 2) * 100)"
proof -
  have h: "(0 :: int) \<le> 512 \<and> 512 \<le> ADC_RESOLUTION"
    by (simp add: ADC_RESOLUTION_def)
  with readTemperature_conversion [where dbl = Binary32 and c = 512]
  show ?thesis by blast
qed

text \<open>
  C4, as the specification states it, fails: for the code 102.3 (the \<^verbatim>\<open>float\<close> nearest to
  it) the conversion does not give a value near \<open>-50.0\<close>; the result is not even within 49
  degrees of it, for either format of \<^verbatim>\<open>double\<close>. The same holds for the code 102, which
  is what 102.3 becomes in the \<^verbatim>\<open>int\<close> variable of \<^verbatim>\<open>readTemperature\<close>.
\<close>

theorem conversion_of_102_3_not_minus_50:
  "\<not> close_to 49 (temperatureOfReading Binary32 (fround Binary32 (1023 / 10))) (- 50)
   \<and> \<not> close_to 49 (temperatureOfReading Binary64 (fround Binary32 (1023 / 10))) (- 50)
   \<and> \<not> close_to 49 (temperatureOfReading Binary32 (int_to_float 102)) (- 50)
   \<and> \<not> close_to 49 (temperatureOfReading Binary64 (int_to_float 102)) (- 50)"
  by (simp add: temperature_at_102_3 temperature_at_102 close_to_def)

text \<open>
  C4, amended. For the code 102.3 (the \<^verbatim>\<open>float\<close> nearest to it), with
  \<open>VOLTAGE_REF = 5.0\<close> and \<open>ADC_RESOLUTION = 1023\<close>, the conversion used by
  \<^verbatim>\<open>readTemperature\<close> gives approximately \<open>0.0\<close> (within a thousandth; in fact exactly
  \<open>0.0\<close>): 102.3 is the code of 0.5 volt, the offset of the sensor.
\<close>

theorem conversion_of_102_3_near_zero:
  "close_to (1 / 1000) (temperatureOfReading dbl (fround Binary32 (1023 / 10))) 0
   \<and> temperatureOfReading dbl (fround Binary32 (1023 / 10)) = Finite 0"
  by (simp add: temperature_at_102_3 close_to_def)

end
